theory Spec2Isabelle
  imports Complex_Main
begin

section \<open>Values of the request body\<close>

text \<open>
  The server (\<open>server/server.ts\<close>) parses request bodies with \<open>express.json()\<close>, so the
  values it destructures are JSON values, or \<open>undefined\<close> for a missing property. A JavaScript
  value is modelled as \<open>json option\<close> with \<open>None\<close> for \<open>undefined\<close>. Numbers are the
  finite doubles a JSON text denotes, modelled as reals: the server only tests their type and
  passes them on. Strings are lists of 8-bit code units. \<open>JObj\<close> lists the own properties
  of a parsed object, each key once.
\<close>

datatype json =
    JNull
  | JBool bool
  | JNum real
  | JStr string
  | JArr "json list"
  | JObj "(string \<times> json) list"

datatype jstype = TUndefined | TObject | TBoolean | TNumber | TString

text \<open>JavaScript's \<open>typeof\<close>.\<close>

fun typeof :: "json option \<Rightarrow> jstype" where
  "typeof None = TUndefined"
| "typeof (Some JNull) = TObject"
| "typeof (Some (JBool b)) = TBoolean"
| "typeof (Some (JNum x)) = TNumber"
| "typeof (Some (JStr s)) = TString"
| "typeof (Some (JArr vs)) = TObject"
| "typeof (Some (JObj kvs)) = TObject"

text \<open>JavaScript's truthiness (\<open>!v\<close> is \<open>\<not> truthy v\<close>): \<open>undefined\<close>, \<open>null\<close>,
  \<open>false\<close>, \<open>0\<close> and the empty string are falsy.\<close>

fun truthy :: "json option \<Rightarrow> bool" where
  "truthy None = False"
| "truthy (Some JNull) = False"
| "truthy (Some (JBool b)) = b"
| "truthy (Some (JNum x)) = (x \<noteq> 0)"
| "truthy (Some (JStr s)) = (s \<noteq> [])"
| "truthy (Some (JArr vs)) = True"
| "truthy (Some (JObj kvs)) = True"

text \<open>\<open>req.body ?? {}\<close>: the empty object stands in for \<open>undefined\<close> and \<open>null\<close>.\<close>

fun body_or_empty :: "json option \<Rightarrow> json" where
  "body_or_empty None = JObj []"
| "body_or_empty (Some JNull) = JObj []"
| "body_or_empty (Some v) = v"

text \<open>Reading one of the properties \<open>prompt\<close>, \<open>duration\<close>, \<open>aspectRatio\<close>, \<open>width\<close>,
  \<open>height\<close> in the destructuring pattern: an object yields its own property; an array or a
  primitive has no property of these names and yields \<open>undefined\<close>.\<close>

fun get_prop :: "json \<Rightarrow> string \<Rightarrow> json option" where
  "get_prop (JObj kvs) k = map_of kvs k"
| "get_prop v k = None"

text \<open>The value of a variable whose \<open>typeof\<close> is known to be \<open>"string"\<close> or \<open>"number"\<close>.\<close>

fun as_string :: "json option \<Rightarrow> string" where
  "as_string (Some (JStr s)) = s"
| "as_string v = []"

fun as_number :: "json option \<Rightarrow> real" where
  "as_number (Some (JNum x)) = x"
| "as_number v = 0"

text \<open>\<open>String.prototype.trim\<close> removes white space and line terminators at both ends; in the
  8-bit range these are the code units 9 to 13, 32 and 160.\<close>

definition js_space :: "char \<Rightarrow> bool" where
  "js_space c = (of_char c \<in> {9, 10, 11, 12, 13, 32, 160 :: nat})"

definition trim :: "string \<Rightarrow> string" where
  "trim s = rev (dropWhile js_space (rev (dropWhile js_space s)))"

section \<open>Data model\<close>

record JobOptions =
  duration :: "real option"
  aspect_ratio :: "string option"
  width :: "real option"
  height :: "real option"
  prompt :: string

datatype JobStatus = Queued | Processing | Succeeded | Failed | Canceled

record JobResult =
  video_url :: string

text \<open>The interface \<open>Job\<close>. The field \<open>id\<close> is named \<open>job_id\<close> here. The timestamps are the
  strings \<open>new Date().toISOString()\<close> returned.\<close>

record Job =
  job_id :: string
  status :: JobStatus
  created_at :: string
  updated_at :: string
  result :: "JobResult option"
  error :: "string option"
  options :: JobOptions

text \<open>\<open>MockJob extends Job\<close> with the handles \<open>setTimeout\<close> returned.\<close>

record MockJob = Job +
  timers :: "nat list"

text \<open>\<open>serializeJob\<close> builds a fresh object of the seven fields of \<open>Job\<close>; whatever else its
  argument holds is left behind.\<close>

definition serializeJob :: "'a Job_scheme \<Rightarrow> Job" where
  "serializeJob job =
     \<lparr> job_id = job_id job,
       status = status job,
       created_at = created_at job,
       updated_at = updated_at job,
       result = result job,
       error = error job,
       options = options job \<rparr>"

section \<open>Server state: job objects, the registry and the timers\<close>

text \<open>
  The timer callbacks of \<open>createMockJob\<close> close over the job object, and the registry
  \<open>mockJobs\<close> holds a reference to the same object. Objects therefore live in a store
  (\<open>heap\<close>, addressed by allocation order) and both the registry and the callbacks hold
  addresses. A callback is one of the two arrow functions of \<open>createMockJob\<close>, with the
  address of the job it captured.
\<close>

datatype callback = QueueCb nat | CompletionCb nat

fun target :: "callback \<Rightarrow> nat" where
  "target (QueueCb a) = a"
| "target (CompletionCb a) = a"

text \<open>An active timer of the runtime: its handle (the \<open>Timeout\<close> object's identity), the
  time at which it is due on the event loop's clock (milliseconds), and its callback.\<close>

record timer =
  handle :: nat
  expiry :: nat
  callback :: callback

record state =
  heap :: "MockJob list"
  mockJobs :: "string \<rightharpoonup> nat"
  pending :: "timer list"
  next_handle :: nat
  clock :: nat

definition init :: state where
  "init = \<lparr> heap = [], mockJobs = Map.empty, pending = [], next_handle = 0, clock = 0 \<rparr>"

text \<open>\<open>clearTimeout(h)\<close> deactivates the timer with that handle; on a timer that has fired
  or was cleared before it does nothing.\<close>

definition clearTimeout :: "nat \<Rightarrow> state \<Rightarrow> state" where
  "clearTimeout h s = s\<lparr> pending := filter (\<lambda>t. handle t \<noteq> h) (pending s) \<rparr>"

text \<open>
  \<open>createMockJob\<close>. \<open>uuid\<close> is what \<open>randomUUID()\<close> returned and \<open>now\<close> what
  \<open>new Date().toISOString()\<close> returned. The two \<open>setTimeout\<close> calls register timers due 1000
  and 5000 milliseconds from the current loop time.
\<close>

definition createMockJob :: "JobOptions \<Rightarrow> string \<Rightarrow> string \<Rightarrow> state \<Rightarrow> Job \<times> state" where
  "createMockJob opts uuid now s =
     (let a = length (heap s);
          queueTimer = next_handle s;
          completionTimer = next_handle s + 1;
          job = \<lparr> job_id = uuid, status = Queued, created_at = now, updated_at = now,
                  result = None, error = None, options = opts,
                  timers = [queueTimer, completionTimer] \<rparr>
      in (serializeJob job,
          s\<lparr> heap := heap s @ [job],
             mockJobs := (mockJobs s)(uuid \<mapsto> a),
             pending := pending s @
               [\<lparr> handle = queueTimer, expiry = clock s + 1000, callback = QueueCb a \<rparr>,
                \<lparr> handle = completionTimer, expiry = clock s + 5000, callback = CompletionCb a \<rparr>],
             next_handle := next_handle s + 2 \<rparr>))"

text \<open>The bodies of the two arrow functions; \<open>now\<close> is the time string read inside.\<close>

fun run_callback :: "callback \<Rightarrow> string \<Rightarrow> MockJob list \<Rightarrow> MockJob list" where
  "run_callback (QueueCb a) now h =
     h[a := (h ! a)\<lparr> status := Processing, updated_at := now \<rparr>]"
| "run_callback (CompletionCb a) now h =
     h[a := (h ! a)\<lparr> status := Succeeded, updated_at := now,
          result := Some \<lparr> video_url =
            ''https://cdn.openai.com/sora/videos/mock-'' @ job_id (h ! a) @ ''.mp4'' \<rparr> \<rparr>]"

text \<open>
  The runtime's timer phase: an active timer that is due by the loop's clock runs and is
  then no longer active. Timers never run early, and may run late. Which of several due
  timers runs next is the runtime's choice, so the timer is named by its handle: Node keeps
  one list of timers for each delay and runs the due timers of one list before it turns to
  the next list, so timers do not always run in the order in which they are due.
\<close>

definition fire_timer :: "nat \<Rightarrow> string \<Rightarrow> state \<Rightarrow> state" where
  "fire_timer h now s =
     (case find (\<lambda>t. handle t = h) (pending s) of
        None \<Rightarrow> s
      | Some t \<Rightarrow>
          if expiry t \<le> clock s
          then s\<lparr> pending := filter (\<lambda>u. handle u \<noteq> h) (pending s),
                  heap := run_callback (callback t) now (heap s) \<rparr>
          else s)"

text \<open>
  \<open>cancelMockJob\<close> returns \<open>undefined\<close> (\<open>None\<close>), the stored object itself (with its
  \<open>timers\<close>) for a job in a terminal state, or the object \<open>serializeJob\<close> built.
\<close>

datatype returned_job = Projected Job | Stored MockJob

definition cancelMockJob :: "string \<Rightarrow> string \<Rightarrow> state \<Rightarrow> returned_job option \<times> state" where
  "cancelMockJob i now s =
     (case mockJobs s i of
        None \<Rightarrow> (None, s)
      | Some a \<Rightarrow>
          (let job = heap s ! a in
           if status job = Succeeded \<or> status job = Failed \<or> status job = Canceled
           then (Some (Stored job), s)
           else
             (let s1 = foldl (\<lambda>st h. clearTimeout h st) s (timers job);
                  job' = job\<lparr> status := Canceled, updated_at := now \<rparr>
              in (Some (Projected (serializeJob job')),
                  s1\<lparr> heap := (heap s1)[a := job'] \<rparr>))))"

section \<open>The route handlers\<close>

text \<open>The configuration read from the environment when the process starts.\<close>

record config =
  MOCK_MODE :: bool
  SORA_API_BASE_URL :: string
  SORA_API_KEY :: string

datatype http_method = GET | POST | DELETE

record fetch_request =
  url :: string
  http_method :: http_method
  headers :: "(string \<times> string) list"
  body :: "json option"

text \<open>
  What a \<open>fetch\<close> call and the \<open>response.json()\<close> after it come to: the promise of
  \<open>fetch\<close> is rejected (a transport failure), or there is a response with a status code and
  a body; the body is \<open>None\<close> when it is not JSON text, where \<open>response.json()\<close> throws.
\<close>

datatype fetch_outcome = Rejected | Upstream nat "json option"

definition ok :: "nat \<Rightarrow> bool" where
  "ok st = (200 \<le> st \<and> st \<le> 299)"

text \<open>What the handler sends: \<open>res.status(code).json(v)\<close> or \<open>res.status(204).send()\<close>.\<close>

datatype payload =
    JobJson returned_job
  | ErrorJson string
  | UpstreamJson json
  | Empty

record response =
  code :: nat
  payload :: payload

text \<open>\<open>JSON.stringify\<close> leaves out the properties whose value is \<open>undefined\<close>.\<close>

definition stringify_fields :: "(string \<times> json option) list \<Rightarrow> json" where
  "stringify_fields kvs = JObj (List.map_filter (\<lambda>(k, v). map_option (Pair k) v) kvs)"

text \<open>
  The options object of \<open>POST /api/generate\<close>: built with the prompt alone, then given
  each optional field whose request value passes its test (an absent property is \<open>None\<close>).
\<close>

definition job_options ::
  "json option \<Rightarrow> json option \<Rightarrow> json option \<Rightarrow> json option \<Rightarrow> json option \<Rightarrow> JobOptions" where
  "job_options prompt_v duration_v aspectRatio width_v height_v =
     \<lparr> duration =
         (if typeof duration_v = TNumber then Some (as_number duration_v) else None),
       aspect_ratio =
         (if typeof aspectRatio = TString \<and> length (trim (as_string aspectRatio)) > 0
          then Some (as_string aspectRatio) else None),
       width =
         (if typeof width_v = TNumber then Some (as_number width_v) else None),
       height =
         (if typeof height_v = TNumber then Some (as_number height_v) else None),
       prompt = as_string prompt_v \<rparr>"

text \<open>
  The handlers take the configuration, the upstream (what \<open>fetch\<close> would come to for a
  request), the request, and the server state; they return the response, the upstream
  requests issued, and the new state.
\<close>

definition post_generate ::
  "config \<Rightarrow> (fetch_request \<Rightarrow> fetch_outcome) \<Rightarrow> json option \<Rightarrow> string \<Rightarrow> string \<Rightarrow> state
     \<Rightarrow> response \<times> fetch_request list \<times> state" where
  "post_generate cfg fetch reqbody uuid now s =
     (let b = body_or_empty reqbody;
          prompt_v = get_prop b ''prompt'';
          duration_v = get_prop b ''duration'';
          aspectRatio = get_prop b ''aspectRatio'';
          width_v = get_prop b ''width'';
          height_v = get_prop b ''height''
      in
      if \<not> truthy prompt_v \<or> typeof prompt_v \<noteq> TString
      then (\<lparr> code = 400, payload = ErrorJson ''Prompt is required'' \<rparr>, [], s)
      else
        (let opts = job_options prompt_v duration_v aspectRatio width_v height_v
         in
         if MOCK_MODE cfg
         then (let (job, s') = createMockJob opts uuid now s
               in (\<lparr> code = 202, payload = JobJson (Projected job) \<rparr>, [], s'))
         else if SORA_API_KEY cfg = []
         then (\<lparr> code = 500, payload = ErrorJson ''SORA_API_KEY is not configured'' \<rparr>, [], s)
         else
           (let rq = \<lparr> url = SORA_API_BASE_URL cfg,
                       http_method = POST,
                       headers = [(''Content-Type'', ''application/json''),
                                  (''Authorization'', ''Bearer '' @ SORA_API_KEY cfg)],
                       body = Some (stringify_fields
                                [(''prompt'', prompt_v), (''duration'', duration_v),
                                 (''aspect_ratio'', aspectRatio), (''width'', width_v),
                                 (''height'', height_v)]) \<rparr>
            in case fetch rq of
                 Upstream st (Some data) \<Rightarrow>
                   if \<not> ok st
                   then (\<lparr> code = st, payload = UpstreamJson data \<rparr>, [rq], s)
                   else (\<lparr> code = 202, payload = UpstreamJson data \<rparr>, [rq], s)
               | _ \<Rightarrow>
                   (\<lparr> code = 500,
                      payload = ErrorJson ''Failed to create video generation job'' \<rparr>, [rq], s))))"

definition get_job ::
  "config \<Rightarrow> (fetch_request \<Rightarrow> fetch_outcome) \<Rightarrow> string \<Rightarrow> state
     \<Rightarrow> response \<times> fetch_request list \<times> state" where
  "get_job cfg fetch i s =
     (if MOCK_MODE cfg
      then (case mockJobs s i of
              None \<Rightarrow> (\<lparr> code = 404, payload = ErrorJson ''Job not found'' \<rparr>, [], s)
            | Some a \<Rightarrow>
                (\<lparr> code = 200, payload = JobJson (Projected (serializeJob (heap s ! a))) \<rparr>, [], s))
      else if SORA_API_KEY cfg = []
      then (\<lparr> code = 500, payload = ErrorJson ''SORA_API_KEY is not configured'' \<rparr>, [], s)
      else
        (let rq = \<lparr> url = SORA_API_BASE_URL cfg @ ''/'' @ i,
                    http_method = GET,
                    headers = [(''Authorization'', ''Bearer '' @ SORA_API_KEY cfg)],
                    body = None \<rparr>
         in case fetch rq of
              Upstream st (Some data) \<Rightarrow>
                if \<not> ok st
                then (\<lparr> code = st, payload = UpstreamJson data \<rparr>, [rq], s)
                else (\<lparr> code = 200, payload = UpstreamJson data \<rparr>, [rq], s)
            | _ \<Rightarrow>
                (\<lparr> code = 500,
                   payload = ErrorJson ''Failed to fetch video generation job'' \<rparr>, [rq], s)))"

definition delete_job ::
  "config \<Rightarrow> (fetch_request \<Rightarrow> fetch_outcome) \<Rightarrow> string \<Rightarrow> string \<Rightarrow> state
     \<Rightarrow> response \<times> fetch_request list \<times> state" where
  "delete_job cfg fetch i now s =
     (if MOCK_MODE cfg
      then (case cancelMockJob i now s of
              (None, s') \<Rightarrow> (\<lparr> code = 404, payload = ErrorJson ''Job not found'' \<rparr>, [], s')
            | (Some job, s') \<Rightarrow> (\<lparr> code = 200, payload = JobJson job \<rparr>, [], s'))
      else if SORA_API_KEY cfg = []
      then (\<lparr> code = 500, payload = ErrorJson ''SORA_API_KEY is not configured'' \<rparr>, [], s)
      else
        (let rq = \<lparr> url = SORA_API_BASE_URL cfg @ ''/'' @ i,
                    http_method = DELETE,
                    headers = [(''Authorization'', ''Bearer '' @ SORA_API_KEY cfg)],
                    body = None \<rparr>
         in case fetch rq of
              Rejected \<Rightarrow>
                (\<lparr> code = 500,
                   payload = ErrorJson ''Failed to cancel video generation job'' \<rparr>, [rq], s)
            | Upstream st parsed \<Rightarrow>
                if st = 204
                then (\<lparr> code = 204, payload = Empty \<rparr>, [rq], s)
                else
                  (case parsed of
                     None \<Rightarrow>
                       (\<lparr> code = 500,
                          payload = ErrorJson ''Failed to cancel video generation job'' \<rparr>, [rq], s)
                   | Some data \<Rightarrow>
                       if \<not> ok st
                       then (\<lparr> code = st, payload = UpstreamJson data \<rparr>, [rq], s)
                       else (\<lparr> code = 200, payload = UpstreamJson data \<rparr>, [rq], s))))"

section \<open>Histories of the server\<close>

text \<open>
  What can happen to a running server: one of the three requests arrives (with what
  \<open>randomUUID\<close> and \<open>Date\<close> return while it is handled), the runtime runs the timer
  with a given handle (if it is active and due), or time passes.
\<close>

datatype event =
    Generate "json option" string string
  | GetJob string
  | DeleteJob string string
  | TimerFires nat string
  | Elapse nat

fun step :: "config \<Rightarrow> (fetch_request \<Rightarrow> fetch_outcome) \<Rightarrow> event \<Rightarrow> state \<Rightarrow> state" where
  "step cfg fetch (Generate reqbody uuid now) s = snd (snd (post_generate cfg fetch reqbody uuid now s))"
| "step cfg fetch (GetJob i) s = snd (snd (get_job cfg fetch i s))"
| "step cfg fetch (DeleteJob i now) s = snd (snd (delete_job cfg fetch i now s))"
| "step cfg fetch (TimerFires h now) s = fire_timer h now s"
| "step cfg fetch (Elapse n) s = s\<lparr> clock := clock s + n \<rparr>"

fun run :: "config \<Rightarrow> (fetch_request \<Rightarrow> fetch_outcome) \<Rightarrow> event list \<Rightarrow> state \<Rightarrow> state" where
  "run cfg fetch [] s = s"
| "run cfg fetch (e # es) s = run cfg fetch es (step cfg fetch e s)"

section \<open>Properties of jobs and of server states\<close>

definition terminal :: "JobStatus \<Rightarrow> bool" where
  "terminal st = (st = Succeeded \<or> st = Failed \<or> st = Canceled)"


text \<open>Every registered id refers to an allocated job object.\<close>

definition reg_ok :: "state \<Rightarrow> bool" where
  "reg_ok s = (\<forall>i a. mockJobs s i = Some a \<longrightarrow> a < length (heap s))"

text \<open>Every active timer acts on an allocated job object, and that object's \<open>timers\<close>
  array holds the timer's handle.\<close>

definition timers_ok :: "state \<Rightarrow> bool" where
  "timers_ok s = (\<forall>t \<in> set (pending s).
      target (callback t) < length (heap s) \<and>
      handle t \<in> set (timers (heap s ! target (callback t))))"

text \<open>No callback is registered twice.\<close>

definition cb_distinct :: "state \<Rightarrow> bool" where
  "cb_distinct s = distinct (map callback (pending s))"

definition state_ok :: "state \<Rightarrow> bool" where
  "state_ok s = (reg_ok s \<and> timers_ok s \<and> cb_distinct s)"






text \<open>The job object at address \<open>a\<close> is canceled and no active timer acts on it.\<close>

definition settled :: "nat \<Rightarrow> state \<Rightarrow> bool" where
  "settled a s = (a < length (heap s) \<and> status (heap s ! a) = Canceled \<and>
                  (\<forall>t \<in> set (pending s). target (callback t) \<noteq> a))"

text \<open>The id a history event brings into the registry, if it creates a job.\<close>

fun uuid_of :: "event \<Rightarrow> string option" where
  "uuid_of (Generate reqbody uuid now) = Some uuid"
| "uuid_of e = None"

section \<open>Responses and sample inputs\<close>

definition prompt_required :: response where
  "prompt_required = \<lparr> code = 400, payload = ErrorJson ''Prompt is required'' \<rparr>"

definition config_error :: response where
  "config_error = \<lparr> code = 500, payload = ErrorJson ''SORA_API_KEY is not configured'' \<rparr>"

definition not_found :: response where
  "not_found = \<lparr> code = 404, payload = ErrorJson ''Job not found'' \<rparr>"

definition cancel_failed :: response where
  "cancel_failed = \<lparr> code = 500, payload = ErrorJson ''Failed to cancel video generation job'' \<rparr>"

text \<open>The request \<open>DELETE /api/jobs/:id\<close> sends upstream.\<close>

definition cancel_request :: "config \<Rightarrow> string \<Rightarrow> fetch_request" where
  "cancel_request cfg i =
     \<lparr> url = SORA_API_BASE_URL cfg @ ''/'' @ i,
       http_method = DELETE,
       headers = [(''Authorization'', ''Bearer '' @ SORA_API_KEY cfg)],
       body = None \<rparr>"

text \<open>Three configurations: the simulator, the proxy without a credential, and the proxy
  with one.\<close>

definition simulator :: config where
  "simulator = \<lparr> MOCK_MODE = True, SORA_API_BASE_URL = ''https://api.openai.com/v1/videos'',
                 SORA_API_KEY = [] \<rparr>"

definition proxy_no_key :: config where
  "proxy_no_key = \<lparr> MOCK_MODE = False, SORA_API_BASE_URL = ''https://api.openai.com/v1/videos'',
                    SORA_API_KEY = [] \<rparr>"

definition proxy :: config where
  "proxy = \<lparr> MOCK_MODE = False, SORA_API_BASE_URL = ''https://api.openai.com/v1/videos'',
             SORA_API_KEY = ''sk-test'' \<rparr>"

text \<open>Four upstreams: one that cannot be reached, one that answers every request with
  status 502 and a body that is not JSON, one that answers with 204, and one that answers
  with 404 and a JSON body.\<close>

definition offline :: "fetch_request \<Rightarrow> fetch_outcome" where
  "offline rq = Rejected"

definition bad_gateway :: "fetch_request \<Rightarrow> fetch_outcome" where
  "bad_gateway rq = Upstream 502 None"

definition no_content :: "fetch_request \<Rightarrow> fetch_outcome" where
  "no_content rq = Upstream 204 None"

definition gone_upstream :: "fetch_request \<Rightarrow> fetch_outcome" where
  "gone_upstream rq = Upstream 404 (Some (JObj [(''error'', JStr ''no such video'')]))"

definition a_cat :: "json option" where
  "a_cat = Some (JObj [(''prompt'', JStr ''a cat'')])"

text \<open>Histories of the simulator: a job was created; it was created and ran to
  completion; it was created and canceled.\<close>

definition created :: state where
  "created = run simulator offline [Generate a_cat ''job-1'' ''t0''] init"



definition canceled_history :: "event list" where
  "canceled_history = [Generate a_cat ''job-1'' ''t0'', DeleteJob ''job-1'' ''t1'']"

definition canceled :: state where
  "canceled = run simulator offline canceled_history init"



section \<open>The operations, field by field\<close>

lemma find_handle:
  "find (\<lambda>t. handle t = h) ts = Some t \<Longrightarrow> t \<in> set ts \<and> handle t = h"
  by (induction ts) (auto split: if_splits)

lemma clear_all_pending:
  "pending (foldl (\<lambda>st h. clearTimeout h st) s hs) = filter (\<lambda>t. handle t \<notin> set hs) (pending s)"
  by (induction hs arbitrary: s) (auto simp: clearTimeout_def intro: filter_cong)

lemma clear_all_rest:
  "heap (foldl (\<lambda>st h. clearTimeout h st) s hs) = heap s"
  "mockJobs (foldl (\<lambda>st h. clearTimeout h st) s hs) = mockJobs s"
  "next_handle (foldl (\<lambda>st h. clearTimeout h st) s hs) = next_handle s"
  "clock (foldl (\<lambda>st h. clearTimeout h st) s hs) = clock s"
  by (induction hs arbitrary: s) (auto simp: clearTimeout_def)

lemma create_fields:
  "heap (snd (createMockJob opts uuid now s)) = heap s @
      [\<lparr> job_id = uuid, status = Queued, created_at = now, updated_at = now,
         result = None, error = None, options = opts,
         timers = [next_handle s, next_handle s + 1] \<rparr>]"
  "mockJobs (snd (createMockJob opts uuid now s)) = (mockJobs s)(uuid \<mapsto> length (heap s))"
  "pending (snd (createMockJob opts uuid now s)) = pending s @
      [\<lparr> handle = next_handle s, expiry = clock s + 1000, callback = QueueCb (length (heap s)) \<rparr>,
       \<lparr> handle = next_handle s + 1, expiry = clock s + 5000, callback = CompletionCb (length (heap s)) \<rparr>]"
  by (simp_all add: createMockJob_def Let_def)

lemma cancel_unknown: "mockJobs s i = None \<Longrightarrow> cancelMockJob i now s = (None, s)"
  by (simp add: cancelMockJob_def)

lemma cancel_terminal:
  "mockJobs s i = Some a \<Longrightarrow> terminal (status (heap s ! a)) \<Longrightarrow>
   cancelMockJob i now s = (Some (Stored (heap s ! a)), s)"
  by (auto simp: cancelMockJob_def terminal_def Let_def)

lemma cancel_active:
  assumes "mockJobs s i = Some a" and "\<not> terminal (status (heap s ! a))"
  shows "fst (cancelMockJob i now s) =
           Some (Projected (serializeJob ((heap s ! a)\<lparr> status := Canceled, updated_at := now \<rparr>)))"
    and "heap (snd (cancelMockJob i now s)) =
           (heap s)[a := (heap s ! a)\<lparr> status := Canceled, updated_at := now \<rparr>]"
    and "pending (snd (cancelMockJob i now s)) =
           filter (\<lambda>t. handle t \<notin> set (timers (heap s ! a))) (pending s)"
    and "mockJobs (snd (cancelMockJob i now s)) = mockJobs s"
  using assms
  by (simp_all add: cancelMockJob_def terminal_def Let_def clear_all_pending clear_all_rest)

lemma fire_due:
  assumes "find (\<lambda>t. handle t = h) (pending s) = Some t" and "expiry t \<le> clock s"
  shows "heap (fire_timer h now s) = run_callback (callback t) now (heap s)"
    and "pending (fire_timer h now s) = filter (\<lambda>u. handle u \<noteq> h) (pending s)"
    and "mockJobs (fire_timer h now s) = mockJobs s"
  using assms by (simp_all add: fire_timer_def)

lemma fire_cases:
  obtains (idle) "fire_timer h now s = s"
  | (due) t where "find (\<lambda>t. handle t = h) (pending s) = Some t" and "expiry t \<le> clock s"
proof (cases "find (\<lambda>t. handle t = h) (pending s)")
  case None
  then have "fire_timer h now s = s" by (simp add: fire_timer_def)
  then show thesis by (rule idle)
next
  case (Some t)
  show thesis
  proof (cases "expiry t \<le> clock s")
    case True
    with Some show thesis by (rule due)
  next
    case False
    with Some have "fire_timer h now s = s" by (simp add: fire_timer_def)
    then show thesis by (rule idle)
  qed
qed

lemma run_callback_length [simp]: "length (run_callback cb now h) = length h"
  by (cases cb) simp_all

lemma run_callback_other: "b \<noteq> target cb \<Longrightarrow> run_callback cb now h ! b = h ! b"
  by (cases cb) simp_all

lemma run_callback_timers [simp]: "timers (run_callback cb now h ! b) = timers (h ! b)"
  by (cases cb; cases "b < length h"; cases "b = target cb") (simp_all add: not_less list_update_beyond)

lemma post_generate_state:
  "snd (snd (post_generate cfg fetch reqbody uuid now s)) = s \<or>
   (\<exists>opts. snd (snd (post_generate cfg fetch reqbody uuid now s)) = snd (createMockJob opts uuid now s))"
proof -
  let ?b = "body_or_empty reqbody"
  let ?p = "get_prop ?b ''prompt''"
  show ?thesis
  proof (cases "\<not> truthy ?p \<or> typeof ?p \<noteq> TString")
    case True
    then show ?thesis by (simp add: post_generate_def Let_def)
  next
    case valid: False
    show ?thesis
    proof (cases "MOCK_MODE cfg")
      case True
      with valid have "snd (snd (post_generate cfg fetch reqbody uuid now s)) =
          snd (createMockJob (job_options ?p (get_prop ?b ''duration'') (get_prop ?b ''aspectRatio'')
                 (get_prop ?b ''width'') (get_prop ?b ''height'')) uuid now s)"
        by (simp add: post_generate_def Let_def case_prod_beta)
      then show ?thesis by blast
    next
      case False
      with valid show ?thesis
        by (simp add: post_generate_def Let_def split: fetch_outcome.splits option.splits)
    qed
  qed
qed

lemma get_job_state: "snd (snd (get_job cfg fetch i s)) = s"
  by (simp add: get_job_def Let_def split: fetch_outcome.splits option.splits)

lemma delete_job_state:
  "snd (snd (delete_job cfg fetch i now s)) = s \<or>
   snd (snd (delete_job cfg fetch i now s)) = snd (cancelMockJob i now s)"
  by (simp add: delete_job_def Let_def split: prod.splits fetch_outcome.splits option.splits)


section \<open>What holds of every reachable state\<close>

lemma state_ok_create:
  assumes "state_ok s"
  shows "state_ok (snd (createMockJob opts uuid now s))"
proof -
  let ?s' = "snd (createMockJob opts uuid now s)"
  let ?n = "length (heap s)"
  from assms have r: "reg_ok s" and t: "timers_ok s" and c: "cb_distinct s"
    by (simp_all add: state_ok_def)
  have old: "target (callback u) < ?n" if "u \<in> set (pending s)" for u
    using t that by (simp add: timers_ok_def)
  have oldq: "callback u \<noteq> QueueCb ?n" and oldc: "callback u \<noteq> CompletionCb ?n"
    if "u \<in> set (pending s)" for u
    using old [OF that] by auto
  have 1: "reg_ok ?s'"
    using r by (auto simp: reg_ok_def create_fields less_Suc_eq)
  have 2: "timers_ok ?s'"
    using t by (auto simp: timers_ok_def create_fields nth_append)
  have fresh: "QueueCb ?n \<notin> callback ` set (pending s)"
    "CompletionCb ?n \<notin> callback ` set (pending s)"
    using oldq oldc by force+
  have 3: "cb_distinct ?s'"
    using c fresh by (simp add: cb_distinct_def create_fields)
  from 1 2 3 show ?thesis by (simp add: state_ok_def)
qed

lemma state_ok_cancel:
  assumes "state_ok s"
  shows "state_ok (snd (cancelMockJob i now s))"
proof (cases "mockJobs s i")
  case None
  with assms show ?thesis by (simp add: cancel_unknown)
next
  case (Some a)
  show ?thesis
  proof (cases "terminal (status (heap s ! a))")
    case True
    with Some assms show ?thesis by (simp add: cancel_terminal)
  next
    case False
    let ?s' = "snd (cancelMockJob i now s)"
    note f = cancel_active [OF Some False, of now]
    from assms have r: "reg_ok s" and t: "timers_ok s" and c: "cb_distinct s"
      by (simp_all add: state_ok_def)
    from r Some have a: "a < length (heap s)" by (simp add: reg_ok_def)
    have tm: "timers (heap ?s' ! b) = timers (heap s ! b)" for b
      using a by (cases "b = a") (simp_all add: f)
    have sub: "u \<in> set (pending s)" if "u \<in> set (pending ?s')" for u
      using that by (simp add: f)
    have 1: "reg_ok ?s'"
      using r by (simp add: reg_ok_def f)
    have 2: "timers_ok ?s'"
      unfolding timers_ok_def
    proof (intro ballI conjI)
      fix u assume u: "u \<in> set (pending ?s')"
      from t sub [OF u] show "target (callback u) < length (heap ?s')"
        by (simp add: timers_ok_def f)
      from t sub [OF u] show "handle u \<in> set (timers (heap ?s' ! target (callback u)))"
        by (simp add: timers_ok_def tm)
    qed
    have 3: "cb_distinct ?s'"
      using c by (simp add: cb_distinct_def f distinct_map_filter)
    from 1 2 3 show ?thesis by (simp add: state_ok_def)
  qed
qed

lemma state_ok_fire:
  assumes "state_ok s"
  shows "state_ok (fire_timer h now s)"
proof (cases h now s rule: fire_cases)
  case idle
  with assms show ?thesis by simp
next
  case (due t0)
  let ?s' = "fire_timer h now s"
  note f = fire_due [OF due, of now]
  from assms have r: "reg_ok s" and t: "timers_ok s" and c: "cb_distinct s"
    by (simp_all add: state_ok_def)
  have sub: "u \<in> set (pending s)" if "u \<in> set (pending ?s')" for u
    using that by (simp add: f)
  have 1: "reg_ok ?s'"
    using r by (simp add: reg_ok_def f)
  have 2: "timers_ok ?s'"
    unfolding timers_ok_def
  proof (intro ballI conjI)
    fix u assume u: "u \<in> set (pending ?s')"
    from t sub [OF u] show "target (callback u) < length (heap ?s')"
      by (simp add: timers_ok_def f)
    from t sub [OF u] show "handle u \<in> set (timers (heap ?s' ! target (callback u)))"
      by (simp add: timers_ok_def f)
  qed
  have 3: "cb_distinct ?s'"
    using c by (simp add: cb_distinct_def f distinct_map_filter)
  from 1 2 3 show ?thesis by (simp add: state_ok_def)
qed

lemma state_ok_init: "state_ok init"
  by (simp add: state_ok_def init_def reg_ok_def timers_ok_def cb_distinct_def)

lemma state_ok_step: "state_ok s \<Longrightarrow> state_ok (step cfg fetch e s)"
proof (cases e)
  case (Generate reqbody uuid now)
  assume "state_ok s"
  with post_generate_state [of cfg fetch reqbody uuid now s] Generate show ?thesis
    by (auto simp: state_ok_create)
next
  case (GetJob i)
  assume "state_ok s"
  with GetJob show ?thesis by (simp add: get_job_state)
next
  case (DeleteJob i now)
  assume "state_ok s"
  with delete_job_state [of cfg fetch i now s] DeleteJob show ?thesis
    by (auto simp: state_ok_cancel)
next
  case (TimerFires h now)
  assume "state_ok s"
  with TimerFires show ?thesis by (simp add: state_ok_fire)
next
  case (Elapse n)
  assume "state_ok s"
  with Elapse show ?thesis
    by (simp add: state_ok_def reg_ok_def timers_ok_def cb_distinct_def)
qed

lemma state_ok_run: "state_ok s \<Longrightarrow> state_ok (run cfg fetch es s)"
  by (induction es arbitrary: s) (simp_all add: state_ok_step)

section \<open>The invariant on jobs, along ordered histories\<close>







section \<open>A canceled job stays canceled\<close>

lemma settled_create: "settled a s \<Longrightarrow> settled a (snd (createMockJob opts uuid now s))"
  by (auto simp: settled_def create_fields nth_append)

lemma settled_cancel:
  assumes "settled a s"
  shows "settled a (snd (cancelMockJob i now s))"
proof (cases "mockJobs s i")
  case None
  with assms show ?thesis by (simp add: cancel_unknown)
next
  case (Some b)
  show ?thesis
  proof (cases "terminal (status (heap s ! b))")
    case True
    with Some assms show ?thesis by (simp add: cancel_terminal)
  next
    case False
    note f = cancel_active [OF Some False, of now]
    from False assms have "b \<noteq> a" by (auto simp: settled_def terminal_def)
    with assms show ?thesis by (auto simp: settled_def f)
  qed
qed

lemma settled_fire:
  assumes "settled a s"
  shows "settled a (fire_timer h now s)"
proof (cases h now s rule: fire_cases)
  case idle
  with assms show ?thesis by simp
next
  case (due t0)
  note f = fire_due [OF due, of now]
  from find_handle [OF due(1)] have "t0 \<in> set (pending s)" by simp
  with assms have "a \<noteq> target (callback t0)" by (auto simp: settled_def)
  with assms show ?thesis by (auto simp: settled_def f run_callback_other)
qed

lemma settled_step: "settled a s \<Longrightarrow> settled a (step cfg fetch e s)"
proof (cases e)
  case (Generate reqbody uuid now)
  assume "settled a s"
  with post_generate_state [of cfg fetch reqbody uuid now s] Generate show ?thesis
    by (auto simp: settled_create)
next
  case (GetJob i)
  assume "settled a s"
  with GetJob show ?thesis by (simp add: get_job_state)
next
  case (DeleteJob i now)
  assume "settled a s"
  with delete_job_state [of cfg fetch i now s] DeleteJob show ?thesis
    by (auto simp: settled_cancel)
next
  case (TimerFires h now)
  assume "settled a s"
  with TimerFires show ?thesis by (simp add: settled_fire)
next
  case (Elapse n)
  assume "settled a s"
  with Elapse show ?thesis by (simp add: settled_def)
qed

lemma settled_run: "settled a s \<Longrightarrow> settled a (run cfg fetch es s)"
  by (induction es arbitrary: s) (simp_all add: settled_step)

lemma cancel_registry: "mockJobs (snd (cancelMockJob i now s)) = mockJobs s"
proof (cases "mockJobs s i")
  case None
  then show ?thesis by (simp add: cancel_unknown)
next
  case (Some b)
  then show ?thesis
    by (cases "terminal (status (heap s ! b))") (simp_all add: cancel_terminal cancel_active)
qed

lemma fire_registry: "mockJobs (fire_timer h now s) = mockJobs s"
  by (simp add: fire_timer_def split: option.splits)

lemma registry_step:
  assumes "Some i \<noteq> uuid_of e"
  shows "mockJobs (step cfg fetch e s) i = mockJobs s i"
proof (cases e)
  case (Generate reqbody uuid now)
  with assms have "uuid \<noteq> i" by simp
  with post_generate_state [of cfg fetch reqbody uuid now s] Generate show ?thesis
    by (auto simp: create_fields)
next
  case (GetJob j)
  then show ?thesis by (simp add: get_job_state)
next
  case (DeleteJob j now)
  with delete_job_state [of cfg fetch j now s] show ?thesis
    by (auto simp: cancel_registry)
next
  case (TimerFires h now)
  then show ?thesis by (simp add: fire_registry)
next
  case (Elapse n)
  then show ?thesis by simp
qed

lemma registry_run:
  "Some i \<notin> uuid_of ` set es \<Longrightarrow> mockJobs (run cfg fetch es s) i = mockJobs s i"
  by (induction es arbitrary: s) (simp_all add: registry_step)

lemma settled_after_cancel:
  assumes "state_ok s" and "mockJobs s i = Some a" and "\<not> terminal (status (heap s ! a))"
  shows "settled a (snd (cancelMockJob i now s))"
proof -
  note f = cancel_active [OF assms(2,3), of now]
  from assms(1) have r: "reg_ok s" and t: "timers_ok s" by (simp_all add: state_ok_def)
  from r assms(2) have a: "a < length (heap s)" by (simp add: reg_ok_def)
  have "target (callback u) \<noteq> a" if "u \<in> set (pending (snd (cancelMockJob i now s)))" for u
  proof
    assume "target (callback u) = a"
    moreover from that have "u \<in> set (pending s)" and "handle u \<notin> set (timers (heap s ! a))"
      by (simp_all add: f)
    ultimately show False using t by (auto simp: timers_ok_def)
  qed
  with a show ?thesis by (simp add: settled_def f)
qed

section \<open>The sample histories, evaluated\<close>

lemmas handler_defs = post_generate_def get_job_def delete_job_def cancelMockJob_def
  createMockJob_def fire_timer_def clearTimeout_def job_options_def serializeJob_def
  init_def Let_def

lemma a_cat_prompt: "get_prop (body_or_empty a_cat) ''prompt'' = Some (JStr ''a cat'')"
  by (simp add: a_cat_def)

lemma created_heap:
  "heap created =
     [\<lparr> job_id = ''job-1'', status = Queued, created_at = ''t0'', updated_at = ''t0'',
        result = None, error = None,
        options = \<lparr> duration = None, aspect_ratio = None, width = None, height = None,
                    prompt = ''a cat'' \<rparr>,
        timers = [0, 1] \<rparr>]"
  by (simp add: created_def simulator_def a_cat_def handler_defs)

lemma created_registry: "mockJobs created ''job-1'' = Some 0"
  by (simp add: created_def simulator_def a_cat_def handler_defs)

lemma canceled_heap:
  "heap canceled =
     [\<lparr> job_id = ''job-1'', status = Canceled, created_at = ''t0'', updated_at = ''t1'',
        result = None, error = None,
        options = \<lparr> duration = None, aspect_ratio = None, width = None, height = None,
                    prompt = ''a cat'' \<rparr>,
        timers = [0, 1] \<rparr>]"
  by (simp add: canceled_def canceled_history_def simulator_def a_cat_def handler_defs)

lemma canceled_registry: "mockJobs canceled ''job-1'' = Some 0"
  by (simp add: canceled_def canceled_history_def simulator_def a_cat_def handler_defs)


lemma created_registry_other: "mockJobs created ''job-2'' = None"
  by (simp add: created_def simulator_def a_cat_def handler_defs)




text \<open>The test of \<open>POST /api/generate\<close> lets through exactly the prompts that are non-empty
  strings.\<close>

lemma valid_prompt:
  "(truthy v \<and> typeof v = TString) = (\<exists>p. v = Some (JStr p) \<and> p \<noteq> [])"
proof (cases v)
  case None
  then show ?thesis by simp
next
  case (Some w)
  then show ?thesis by (cases w) simp_all
qed

section \<open>The claims\<close>

text \<open>
  Claim C1. A simulator job that is canceled while queued or processing: the cancel
  operation clears the job's timers and sets the status to canceled, and no later
  observation of that job shows processing or succeeded. Here \<open>s\<close> is any state the
  server can be in, the job registered under \<open>i\<close> is the object at address \<open>a\<close>. After the
  cancellation no active timer bears a handle of the job's \<open>timers\<close> array or acts on the
  job; and after any further history \<open>es\<close> the job object is still canceled, still without
  a timer, and \<open>GET /api/jobs/i\<close> answers with its projection, status canceled (as long as
  \<open>randomUUID\<close> has not handed out the id \<open>i\<close> a second time, which would register
  another job under it).
\<close>

theorem cancel_prevents_transitions:
  assumes "MOCK_MODE cfg"
      and "s = run cfg fetch evs init"
      and "mockJobs s i = Some a"
      and "status (heap s ! a) = Queued \<or> status (heap s ! a) = Processing"
  shows "\<exists>j s1. delete_job cfg fetch i now s
                   = (\<lparr> code = 200, payload = JobJson (Projected j) \<rparr>, [], s1)
          \<and> status j = Canceled
          \<and> status (heap s1 ! a) = Canceled
          \<and> (\<forall>t \<in> set (pending s1). handle t \<notin> set (timers (heap s ! a)) \<and> target (callback t) \<noteq> a)
          \<and> (\<forall>es. status (heap (run cfg fetch es s1) ! a) = Canceled
                 \<and> (\<forall>t \<in> set (pending (run cfg fetch es s1)). target (callback t) \<noteq> a)
                 \<and> (Some i \<notin> uuid_of ` set es \<longrightarrow>
                      get_job cfg fetch i (run cfg fetch es s1)
                        = (\<lparr> code = 200,
                             payload = JobJson (Projected (serializeJob (heap (run cfg fetch es s1) ! a))) \<rparr>,
                           [], run cfg fetch es s1)
                      \<and> status (serializeJob (heap (run cfg fetch es s1) ! a)) = Canceled))"
proof -
  let ?s1 = "snd (cancelMockJob i now s)"
  from assms(4) have nt: "\<not> terminal (status (heap s ! a))"
    by (auto simp: terminal_def)
  note f = cancel_active [OF assms(3) nt, of now]
  from assms(2) have state_ok: "state_ok s" by (simp add: state_ok_run state_ok_init)
  have st: "settled a ?s1" using state_ok assms(3) nt by (rule settled_after_cancel)
  have resp: "delete_job cfg fetch i now s =
      (\<lparr> code = 200, payload = JobJson (Projected
           (serializeJob ((heap s ! a)\<lparr> status := Canceled, updated_at := now \<rparr>))) \<rparr>, [], ?s1)"
    using assms(1) f(1) by (cases "cancelMockJob i now s") (simp add: delete_job_def)
  have later: "status (heap (run cfg fetch es ?s1) ! a) = Canceled
      \<and> (\<forall>t \<in> set (pending (run cfg fetch es ?s1)). target (callback t) \<noteq> a)
      \<and> (Some i \<notin> uuid_of ` set es \<longrightarrow>
            get_job cfg fetch i (run cfg fetch es ?s1)
              = (\<lparr> code = 200,
                   payload = JobJson (Projected (serializeJob (heap (run cfg fetch es ?s1) ! a))) \<rparr>,
                 [], run cfg fetch es ?s1)
            \<and> status (serializeJob (heap (run cfg fetch es ?s1) ! a)) = Canceled)" for es
  proof -
    from st have s2: "settled a (run cfg fetch es ?s1)" by (rule settled_run)
    have "mockJobs (run cfg fetch es ?s1) i = Some a" if "Some i \<notin> uuid_of ` set es"
      using registry_run [OF that, of cfg fetch ?s1] assms(3) by (simp add: f)
    with s2 assms(1) show ?thesis
      by (simp add: settled_def get_job_def serializeJob_def)
  qed
  have cleared: "\<forall>t \<in> set (pending ?s1).
      handle t \<notin> set (timers (heap s ! a)) \<and> target (callback t) \<noteq> a"
    using st by (simp add: settled_def f)
  from st have "status (heap ?s1 ! a) = Canceled" by (simp add: settled_def)
  with resp later cleared show ?thesis
    by (intro exI [of _ "serializeJob ((heap s ! a)\<lparr> status := Canceled, updated_at := now \<rparr>)"]
          exI [of _ ?s1]) (simp add: serializeJob_def)
qed

theorem cancel_prevents_transitions_witness:
  "MOCK_MODE simulator \<and> mockJobs created ''job-1'' = Some 0
   \<and> status (heap created ! 0) = Queued
   \<and> status (heap (run simulator offline
         [Elapse 1000, TimerFires 0 ''t2'', Elapse 4000, TimerFires 1 ''t6'']
         (snd (snd (delete_job simulator offline ''job-1'' ''t1'' created)))) ! 0) = Canceled"
proof -
  have m: "MOCK_MODE simulator" by (simp add: simulator_def)
  have q: "status (heap created ! 0) = Queued \<or> status (heap created ! 0) = Processing"
    by (simp add: created_heap)
  from cancel_prevents_transitions [OF m created_def created_registry q, of "''t1''"]
  obtain j s1 where d: "delete_job simulator offline ''job-1'' ''t1'' created
        = (\<lparr> code = 200, payload = JobJson (Projected j) \<rparr>, [], s1)"
    and after: "\<forall>es. status (heap (run simulator offline es s1) ! 0) = Canceled
         \<and> (\<forall>t \<in> set (pending (run simulator offline es s1)). target (callback t) \<noteq> 0)
         \<and> (Some ''job-1'' \<notin> uuid_of ` set es \<longrightarrow>
              get_job simulator offline ''job-1'' (run simulator offline es s1)
                = (\<lparr> code = 200,
                     payload = JobJson (Projected (serializeJob (heap (run simulator offline es s1) ! 0))) \<rparr>,
                   [], run simulator offline es s1)
              \<and> status (serializeJob (heap (run simulator offline es s1) ! 0)) = Canceled)"
    by blast
  from d have e: "snd (snd (delete_job simulator offline ''job-1'' ''t1'' created)) = s1"
    by simp
  from after have "status (heap (run simulator offline
       [Elapse 1000, TimerFires 0 ''t2'', Elapse 4000, TimerFires 1 ''t6''] s1) ! 0) = Canceled"
    by blast
  then have fin: "status (heap (run simulator offline
       [Elapse 1000, TimerFires 0 ''t2'', Elapse 4000, TimerFires 1 ''t6'']
       (snd (snd (delete_job simulator offline ''job-1'' ''t1'' created)))) ! 0) = Canceled"
    unfolding e .
  have "status (heap created ! 0) = Queued" by (simp add: created_heap)
  with m created_registry fin show ?thesis by blast
qed

text \<open>
  Claim C2. The body of every job response of the simulator is the public projection; the
  \<open>timers\<close> field is never exposed, also when Cancel is invoked on a job in a terminal
  state. The code does otherwise on that path: \<open>cancelMockJob\<close> returns the stored object,
  not \<open>serializeJob\<close> of it, and the handler sends it. Evaluated on the job that was
  created and canceled, a second cancel answers with the stored object and its two timer
  handles.
\<close>

theorem cancel_of_terminal_job_sends_timers:
  "fst (delete_job simulator offline ''job-1'' ''t2'' canceled) =
     \<lparr> code = 200,
       payload = JobJson (Stored
         \<lparr> job_id = ''job-1'', status = Canceled, created_at = ''t0'', updated_at = ''t1'',
           result = None, error = None,
           options = \<lparr> duration = None, aspect_ratio = None, width = None, height = None,
                       prompt = ''a cat'' \<rparr>,
           timers = [0, 1] \<rparr>) \<rparr>"
  by (simp add: delete_job_def cancelMockJob_def canceled_registry canceled_heap simulator_def)

theorem cancel_of_terminal_job_sends_timers_witness:
  "\<exists>m. payload (fst (delete_job simulator offline ''job-1'' ''t2'' canceled)) = JobJson (Stored m)
       \<and> timers m = [0, 1]"
  using cancel_of_terminal_job_sends_timers by simp

text \<open>
  Claim C3. For a request whose prompt is a non-empty string, Create in simulator mode
  answers 202 with a job whose status is queued, whose id is the one \<open>randomUUID\<close>
  returned and is non-empty (\<open>randomUUID\<close> never returns the empty string), and whose
  \<open>created_at\<close> equals \<open>updated_at\<close>; the job is registered under its id.
\<close>

theorem create_returns_queued_job:
  assumes "MOCK_MODE cfg"
      and "get_prop (body_or_empty reqbody) ''prompt'' = Some (JStr p)" and "p \<noteq> []"
      and "uuid \<noteq> []"
  shows "\<exists>j s'. post_generate cfg fetch reqbody uuid now s
                  = (\<lparr> code = 202, payload = JobJson (Projected j) \<rparr>, [], s')
          \<and> status j = Queued \<and> job_id j = uuid \<and> job_id j \<noteq> []
          \<and> created_at j = updated_at j \<and> created_at j = now
          \<and> prompt (options j) = p
          \<and> mockJobs s' uuid = Some (length (heap s))
          \<and> serializeJob (heap s' ! length (heap s)) = j"
  using assms
  by (simp add: post_generate_def createMockJob_def serializeJob_def job_options_def Let_def)

theorem create_returns_queued_job_witness:
  "\<exists>j s'. post_generate simulator offline a_cat ''job-1'' ''t0'' init
             = (\<lparr> code = 202, payload = JobJson (Projected j) \<rparr>, [], s')
     \<and> status j = Queued \<and> job_id j = ''job-1'' \<and> created_at j = updated_at j"
proof -
  have m: "MOCK_MODE simulator" by (simp add: simulator_def)
  have p: "''a cat'' \<noteq> []" and u: "''job-1'' \<noteq> []" by simp_all
  from create_returns_queued_job [OF m a_cat_prompt p u, of offline "''t0''" init]
  show ?thesis by blast
qed

text \<open>
  Claim C4. A Create request whose prompt is missing or is the empty string is answered
  with the validation error (status 400); no upstream request is made and the state of the
  server, the registry included, is as it was: no job is registered.
\<close>

theorem create_rejects_missing_or_empty_prompt:
  assumes "get_prop (body_or_empty reqbody) ''prompt'' = None
           \<or> get_prop (body_or_empty reqbody) ''prompt'' = Some (JStr [])"
  shows "post_generate cfg fetch reqbody uuid now s = (prompt_required, [], s)
         \<and> step cfg fetch (Generate reqbody uuid now) s = s"
  using assms by (auto simp: post_generate_def prompt_required_def Let_def)

theorem create_rejects_missing_or_empty_prompt_witness:
  "post_generate simulator offline (Some (JObj [(''prompt'', JStr [])])) ''job-2'' ''t1'' created
     = (prompt_required, [], created)
   \<and> post_generate simulator offline None ''job-2'' ''t1'' created = (prompt_required, [], created)
   \<and> mockJobs created ''job-2'' = None"
  using create_rejects_missing_or_empty_prompt
          [of "Some (JObj [(''prompt'', JStr [])])" simulator offline "''job-2''" "''t1''" created]
        create_rejects_missing_or_empty_prompt
          [of None simulator offline "''job-2''" "''t1''" created]
  by (simp add: created_registry_other)

text \<open>
  Claim C5. Cancel on a simulator job that is in a terminal state answers 200 with the
  stored job as it is, and leaves the whole server state as it was: the status,
  \<open>updated_at\<close> and every other field of the job are unchanged, and no error is signaled.
\<close>

theorem cancel_terminal_idempotent:
  assumes "MOCK_MODE cfg" and "mockJobs s i = Some a" and "a < length (heap s)"
      and "status (heap s ! a) = Succeeded \<or> status (heap s ! a) = Failed
           \<or> status (heap s ! a) = Canceled"
  shows "delete_job cfg fetch i now s
           = (\<lparr> code = 200, payload = JobJson (Stored (heap s ! a)) \<rparr>, [], s)"
  using assms by (auto simp add: delete_job_def cancelMockJob_def Let_def)

theorem cancel_terminal_idempotent_witness:
  "MOCK_MODE simulator \<and> mockJobs canceled ''job-1'' = Some 0
   \<and> status (heap canceled ! 0) = Canceled
   \<and> delete_job simulator offline ''job-1'' ''t9'' canceled
       = (\<lparr> code = 200, payload = JobJson (Stored (heap canceled ! 0)) \<rparr>, [], canceled)"
proof -
  have m: "MOCK_MODE simulator" by (simp add: simulator_def)
  have l: "0 < length (heap canceled)" by (simp add: canceled_heap)
  have c: "status (heap canceled ! 0) = Canceled" by (simp add: canceled_heap)
  then have t: "status (heap canceled ! 0) = Succeeded \<or> status (heap canceled ! 0) = Failed
      \<or> status (heap canceled ! 0) = Canceled" by simp
  from cancel_terminal_idempotent [OF m canceled_registry l t, of offline "''t9''"] m c
  show ?thesis by (simp add: canceled_registry)
qed

text \<open>
  Claim C6. For an id that is not in the simulator's registry, Get and Cancel both answer
  with not-found (status 404, an ordinary response), and the server state is unchanged.
\<close>

theorem unknown_id_not_found:
  assumes "MOCK_MODE cfg" and "mockJobs s i = None"
  shows "get_job cfg fetch i s = (not_found, [], s)
       \<and> delete_job cfg fetch i now s = (not_found, [], s)
       \<and> step cfg fetch (GetJob i) s = s \<and> step cfg fetch (DeleteJob i now) s = s"
  using assms by (simp add: get_job_def delete_job_def cancelMockJob_def not_found_def)

theorem unknown_id_not_found_witness:
  "MOCK_MODE simulator \<and> mockJobs created ''job-2'' = None
   \<and> get_job simulator offline ''job-2'' created = (not_found, [], created)
   \<and> delete_job simulator offline ''job-2'' ''t1'' created = (not_found, [], created)"
proof -
  have m: "MOCK_MODE simulator" by (simp add: simulator_def)
  from unknown_id_not_found [OF m created_registry_other, of offline "''t1''"] m
  show ?thesis by (simp add: created_registry_other)
qed

text \<open>
  Claim C7, as amended. In proxy mode without a credential, Get and Cancel answer with the
  configuration error and Create does so for every request that passes validation (a
  prompt that is a non-empty string); a Create request that fails validation (any other
  request) is answered with the validation error, which the handler tests first. In every
  case no upstream request is issued and the server state is unchanged.
\<close>

theorem proxy_without_credential:
  assumes "\<not> MOCK_MODE cfg" and "SORA_API_KEY cfg = []"
  shows "get_job cfg fetch i s = (config_error, [], s)
       \<and> delete_job cfg fetch i now s = (config_error, [], s)
       \<and> (\<forall>p. get_prop (body_or_empty reqbody) ''prompt'' = Some (JStr p) \<and> p \<noteq> [] \<longrightarrow>
              post_generate cfg fetch reqbody uuid now s = (config_error, [], s))
       \<and> ((\<forall>p. get_prop (body_or_empty reqbody) ''prompt'' = Some (JStr p) \<longrightarrow> p = []) \<longrightarrow>
              post_generate cfg fetch reqbody uuid now s = (prompt_required, [], s))
       \<and> fst (snd (post_generate cfg fetch reqbody uuid now s)) = []
       \<and> snd (snd (post_generate cfg fetch reqbody uuid now s)) = s"
proof -
  have g: "get_job cfg fetch i s = (config_error, [], s)"
    using assms by (simp add: get_job_def config_error_def)
  have d: "delete_job cfg fetch i now s = (config_error, [], s)"
    using assms by (simp add: delete_job_def config_error_def)
  have c: "post_generate cfg fetch reqbody uuid now s = (config_error, [], s)"
    if "get_prop (body_or_empty reqbody) ''prompt'' = Some (JStr p)" and "p \<noteq> []" for p
    using assms that by (simp add: post_generate_def config_error_def Let_def)
  have v: "post_generate cfg fetch reqbody uuid now s = (prompt_required, [], s)"
    if "\<forall>p. get_prop (body_or_empty reqbody) ''prompt'' = Some (JStr p) \<longrightarrow> p = []"
  proof -
    from that have "\<not> (truthy (get_prop (body_or_empty reqbody) ''prompt'')
        \<and> typeof (get_prop (body_or_empty reqbody) ''prompt'') = TString)"
      unfolding valid_prompt by blast
    then show ?thesis
      by (auto simp: post_generate_def prompt_required_def Let_def)
  qed
  have n: "fst (snd (post_generate cfg fetch reqbody uuid now s)) = []
      \<and> snd (snd (post_generate cfg fetch reqbody uuid now s)) = s"
    using assms by (simp add: post_generate_def Let_def)
  from g d c v n show ?thesis by blast
qed

theorem proxy_without_credential_witness:
  "get_job proxy_no_key offline ''job-1'' init = (config_error, [], init)
   \<and> delete_job proxy_no_key offline ''job-1'' ''t1'' init = (config_error, [], init)
   \<and> post_generate proxy_no_key offline a_cat ''job-1'' ''t1'' init = (config_error, [], init)
   \<and> post_generate proxy_no_key offline (Some (JObj [(''prompt'', JNum 42)])) ''job-1'' ''t1'' init
       = (prompt_required, [], init)"
proof -
  have m: "\<not> MOCK_MODE proxy_no_key" and k: "SORA_API_KEY proxy_no_key = []"
    by (simp_all add: proxy_no_key_def)
  from proxy_without_credential
         [where cfg = proxy_no_key and fetch = offline and i = "''job-1''" and s = init
            and now = "''t1''" and reqbody = a_cat and uuid = "''job-1''", OF m k]
    a_cat_prompt
  have 1: "get_job proxy_no_key offline ''job-1'' init = (config_error, [], init)
     \<and> delete_job proxy_no_key offline ''job-1'' ''t1'' init = (config_error, [], init)
     \<and> post_generate proxy_no_key offline a_cat ''job-1'' ''t1'' init = (config_error, [], init)"
    by simp
  from proxy_without_credential
         [where cfg = proxy_no_key and fetch = offline and i = "''job-1''" and s = init
            and now = "''t1''" and reqbody = "Some (JObj [(''prompt'', JNum 42)])"
            and uuid = "''job-1''", OF m k]
  have 2: "post_generate proxy_no_key offline (Some (JObj [(''prompt'', JNum 42)])) ''job-1'' ''t1'' init
       = (prompt_required, [], init)"
    by simp
  from 1 2 show ?thesis by blast
qed

text \<open>The claim as stated fails for Create: without a credential, a request with no
  prompt is answered with the validation error, not with the configuration error.\<close>

theorem proxy_without_credential_counterexample:
  "\<not> MOCK_MODE proxy_no_key \<and> SORA_API_KEY proxy_no_key = []
   \<and> fst (post_generate proxy_no_key offline None ''job-1'' ''t0'' init) = prompt_required
   \<and> fst (post_generate proxy_no_key offline None ''job-1'' ''t0'' init) \<noteq> config_error"
  by (simp add: proxy_no_key_def post_generate_def prompt_required_def config_error_def)

text \<open>
  Claim C8, as amended. In proxy mode with a credential, Cancel issues one upstream request.
  An upstream 204 is answered with 204 and an empty body, unlike the JSON-bearing success
  (200 with the upstream's JSON). A non-success upstream status whose body is JSON is
  relayed: same status, same JSON. When the status is not 204 and the body is not JSON,
  the handler answers with its own status 500 and error message.
\<close>

theorem proxy_cancel_relay:
  assumes "\<not> MOCK_MODE cfg" and "SORA_API_KEY cfg \<noteq> []"
      and "fetch (cancel_request cfg i) = Upstream st parsed"
  shows "(st = 204 \<longrightarrow>
            delete_job cfg fetch i now s
              = (\<lparr> code = 204, payload = Empty \<rparr>, [cancel_request cfg i], s))
       \<and> (\<forall>data. st \<noteq> 204 \<and> ok st \<and> parsed = Some data \<longrightarrow>
            delete_job cfg fetch i now s
              = (\<lparr> code = 200, payload = UpstreamJson data \<rparr>, [cancel_request cfg i], s))
       \<and> (\<forall>data. \<not> ok st \<and> parsed = Some data \<longrightarrow>
            delete_job cfg fetch i now s
              = (\<lparr> code = st, payload = UpstreamJson data \<rparr>, [cancel_request cfg i], s))
       \<and> (st \<noteq> 204 \<and> parsed = None \<longrightarrow>
            delete_job cfg fetch i now s = (cancel_failed, [cancel_request cfg i], s))"
  using assms
  by (auto simp: delete_job_def cancel_request_def cancel_failed_def ok_def Let_def)

theorem proxy_cancel_relay_witness:
  "delete_job proxy no_content ''job-1'' ''t1'' init
     = (\<lparr> code = 204, payload = Empty \<rparr>, [cancel_request proxy ''job-1''], init)
   \<and> delete_job proxy gone_upstream ''job-1'' ''t1'' init
     = (\<lparr> code = 404, payload = UpstreamJson (JObj [(''error'', JStr ''no such video'')]) \<rparr>,
        [cancel_request proxy ''job-1''], init)"
proof -
  have m: "\<not> MOCK_MODE proxy" and k: "SORA_API_KEY proxy \<noteq> []"
    by (simp_all add: proxy_def)
  have a: "no_content (cancel_request proxy ''job-1'') = Upstream 204 None"
    by (simp add: no_content_def)
  have b: "gone_upstream (cancel_request proxy ''job-1'')
      = Upstream 404 (Some (JObj [(''error'', JStr ''no such video'')]))"
    by (simp add: gone_upstream_def)
  have n: "\<not> ok 404" by (simp add: ok_def)
  from proxy_cancel_relay
         [where cfg = proxy and fetch = no_content and i = "''job-1''" and st = 204
            and parsed = None and now = "''t1''" and s = init, OF m k a]
    proxy_cancel_relay
         [where cfg = proxy and fetch = gone_upstream and i = "''job-1''" and st = 404
            and parsed = "Some (JObj [(''error'', JStr ''no such video'')])"
            and now = "''t1''" and s = init, OF m k b] n
  show ?thesis by simp
qed

text \<open>The claim as stated fails for a non-success upstream answer whose body is not JSON:
  the upstream's 502 reaches the client as the handler's own 500.\<close>

theorem proxy_cancel_relay_counterexample:
  "\<not> MOCK_MODE proxy \<and> SORA_API_KEY proxy \<noteq> []
   \<and> bad_gateway (cancel_request proxy ''job-1'') = Upstream 502 None \<and> \<not> ok 502
   \<and> fst (delete_job proxy bad_gateway ''job-1'' ''t1'' init) = cancel_failed
   \<and> code (fst (delete_job proxy bad_gateway ''job-1'' ''t1'' init)) \<noteq> 502"
  by (simp add: proxy_def bad_gateway_def ok_def delete_job_def cancel_failed_def)




text \<open>
  Claim C10. A Create request whose prompt is present but is not a string (a number, a
  boolean, \<open>null\<close>, an array or an object) is answered exactly as a request without a
  prompt is: the validation error, no upstream request, state unchanged, no job registered.
\<close>

theorem create_rejects_non_string_prompt:
  assumes "get_prop (body_or_empty reqbody) ''prompt'' = Some v"
      and "\<forall>p. v \<noteq> JStr p"
  shows "post_generate cfg fetch reqbody uuid now s = (prompt_required, [], s)
         \<and> post_generate cfg fetch reqbody uuid now s = post_generate cfg fetch None uuid now s
         \<and> step cfg fetch (Generate reqbody uuid now) s = s"
proof -
  have "typeof (Some v) \<noteq> TString"
    using assms(2) by (cases v) simp_all
  then show ?thesis
    using assms(1) by (simp add: post_generate_def prompt_required_def Let_def)
qed

theorem create_rejects_non_string_prompt_witness:
  "post_generate simulator offline (Some (JObj [(''prompt'', JNum 42)])) ''job-2'' ''t1'' created
     = (prompt_required, [], created)
   \<and> post_generate simulator offline (Some (JObj [(''prompt'', JObj [(''text'', JStr ''a cat'')])]))
       ''job-2'' ''t1'' created
     = (prompt_required, [], created)
   \<and> mockJobs created ''job-2'' = None"
proof -
  have a: "get_prop (body_or_empty (Some (JObj [(''prompt'', JNum 42)]))) ''prompt'' = Some (JNum 42)"
    by simp
  have b: "get_prop (body_or_empty (Some (JObj [(''prompt'', JObj [(''text'', JStr ''a cat'')])])))
      ''prompt'' = Some (JObj [(''text'', JStr ''a cat'')])"
    by simp
  have na: "\<forall>p. JNum 42 \<noteq> JStr p" and nb: "\<forall>p. JObj [(''text'', JStr ''a cat'')] \<noteq> JStr p"
    by simp_all
  from create_rejects_non_string_prompt [OF a na, of simulator offline "''job-2''" "''t1''" created]
    create_rejects_non_string_prompt [OF b nb, of simulator offline "''job-2''" "''t1''" created]
  show ?thesis by (simp add: created_registry_other)
qed

end
